theory Spec2Isabelle
  imports Main
begin

section \<open>Errors\<close>

text \<open>
  The \<^verbatim>\<open>error\<close> values the program returns. \<^verbatim>\<open>EOF\<close> is \<^verbatim>\<open>io.EOF\<close>;
  \<^verbatim>\<open>DecodeError\<close> stands for any non-nil error of \<^verbatim>\<open>json.Unmarshal\<close>;
  \<^verbatim>\<open>MarshalError\<close> for one of \<^verbatim>\<open>json.Marshal\<close>; \<^verbatim>\<open>ErrorsNew b\<close> is
  \<^verbatim>\<open>errors.New(string(b))\<close>, built from the body of a response whose status is not 200;
  \<^verbatim>\<open>IOError\<close> is any other error of the file system or of the network.
\<close>

datatype error = EOF | DecodeError | MarshalError | ErrorsNew string | IOError string

section \<open>JSON texts as the decoder reads them\<close>

text \<open>
  \<^verbatim>\<open>json.Unmarshal\<close> belongs to the Go library, not to this repository. It is modelled
  here from its documented behaviour: the text is first checked against the JSON grammar
  as a whole, then stored into the destination value. Strings are byte lists.
\<close>

datatype json =
    JNull
  | JBool bool
  | JNumber string
  | JString string
  | JArray "json list"
  | JObject "(string \<times> json) list"

datatype token =
    TLBrace | TRBrace | TLBracket | TRBracket | TColon | TComma
  | TString string | TNumber string | TTrue | TFalse | TNull

definition isSpace :: "char \<Rightarrow> bool" where
  "isSpace c = (c = CHR '' '' \<or> c = CHR 0x09 \<or> c = CHR 0x0D \<or> c = CHR 0x0A)"

definition isDigit :: "char \<Rightarrow> bool" where
  "isDigit c = (48 \<le> (of_char c :: nat) \<and> (of_char c :: nat) \<le> 57)"

definition hexValue :: "char \<Rightarrow> nat option" where
  "hexValue c =
     (let n = (of_char c :: nat) in
      if 48 \<le> n \<and> n \<le> 57 then Some (n - 48)
      else if 97 \<le> n \<and> n \<le> 102 then Some (n - 87)
      else if 65 \<le> n \<and> n \<le> 70 then Some (n - 55)
      else None)"

text \<open>\<^verbatim>\<open>getu4\<close>: the value of four hexadecimal digits, the text after \<^verbatim>\<open>\u\<close>.\<close>

definition getu4 :: "char list \<Rightarrow> nat option" where
  "getu4 cs =
     (case cs of
        a # b # c # d # _ \<Rightarrow>
          (case (hexValue a, hexValue b, hexValue c, hexValue d) of
             (Some x3, Some x2, Some x1, Some x0) \<Rightarrow> Some (((x3 * 16 + x2) * 16 + x1) * 16 + x0)
           | _ \<Rightarrow> None)
      | _ \<Rightarrow> None)"

text \<open>\<^verbatim>\<open>utf8.EncodeRune\<close>; a surrogate or a value past U+10FFFF becomes U+FFFD.\<close>

definition replacementChar :: "char list" where
  "replacementChar = [CHR 0xEF, CHR 0xBF, CHR 0xBD]"

definition encodeRune :: "nat \<Rightarrow> char list" where
  "encodeRune r =
     (if r < 0x80 then [char_of r]
      else if r < 0x800 then [char_of (0xC0 + r div 64), char_of (0x80 + r mod 64)]
      else if (0xD800 \<le> r \<and> r \<le> 0xDFFF) \<or> r > 0x10FFFF then replacementChar
      else if r < 0x10000 then
        [char_of (0xE0 + r div 4096), char_of (0x80 + (r div 64) mod 64), char_of (0x80 + r mod 64)]
      else
        [char_of (0xF0 + r div 262144), char_of (0x80 + (r div 4096) mod 64),
         char_of (0x80 + (r div 64) mod 64), char_of (0x80 + r mod 64)])"

text \<open>
  The length of the well-formed UTF-8 sequence that starts a byte list, or 0 when the
  list does not start with one, as \<^verbatim>\<open>utf8.DecodeRune\<close> decides it.
\<close>

definition inRange :: "nat \<Rightarrow> nat \<Rightarrow> char \<Rightarrow> bool" where
  "inRange lo hi c = (lo \<le> (of_char c :: nat) \<and> (of_char c :: nat) \<le> hi)"

definition runeLen :: "char list \<Rightarrow> nat" where
  "runeLen cs =
     (case cs of
        [] \<Rightarrow> 0
      | c0 # r0 \<Rightarrow>
          if inRange 0x00 0x7F c0 then 1
          else (case r0 of
              [] \<Rightarrow> 0
            | c1 # r1 \<Rightarrow>
                if inRange 0xC2 0xDF c0 then (if inRange 0x80 0xBF c1 then 2 else 0)
                else (case r1 of
                    [] \<Rightarrow> 0
                  | c2 # r2 \<Rightarrow>
                      if \<not> inRange 0x80 0xBF c2 then 0
                      else if inRange 0xE0 0xE0 c0 then (if inRange 0xA0 0xBF c1 then 3 else 0)
                      else if inRange 0xE1 0xEC c0 then (if inRange 0x80 0xBF c1 then 3 else 0)
                      else if inRange 0xED 0xED c0 then (if inRange 0x80 0x9F c1 then 3 else 0)
                      else if inRange 0xEE 0xEF c0 then (if inRange 0x80 0xBF c1 then 3 else 0)
                      else (case r2 of
                          [] \<Rightarrow> 0
                        | c3 # _ \<Rightarrow>
                            if \<not> inRange 0x80 0xBF c3 then 0
                            else if inRange 0xF0 0xF0 c0 then (if inRange 0x90 0xBF c1 then 4 else 0)
                            else if inRange 0xF1 0xF3 c0 then (if inRange 0x80 0xBF c1 then 4 else 0)
                            else if inRange 0xF4 0xF4 c0 then (if inRange 0x80 0x8F c1 then 4 else 0)
                            else 0))))"

definition prepend :: "char list \<Rightarrow> (string \<times> char list) option \<Rightarrow> (string \<times> char list) option" where
  "prepend xs r = (case r of None \<Rightarrow> None | Some (s, rest) \<Rightarrow> Some (xs @ s, rest))"

text \<open>
  One item of a string literal (a byte, an escape or a UTF-8 sequence): the bytes it
  denotes and the number of bytes of text it takes, or \<open>None\<close> when it is malformed
  (a byte below 0x20, an unknown escape). As in \<^verbatim>\<open>unquote\<close>, a pair of surrogate
  escapes is one code point; a lone surrogate escape and a byte that is not part of
  well-formed UTF-8 are replaced by U+FFFD.
\<close>

definition stringItem :: "char list \<Rightarrow> (char list \<times> nat) option" where
  "stringItem cs =
     (case cs of
        [] \<Rightarrow> None
      | c # r \<Rightarrow>
          if (of_char c :: nat) < 0x20 then None
          else if c = CHR 0x5C then
            (case r of
               [] \<Rightarrow> None
             | e # es \<Rightarrow>
                 if e = CHR 0x22 \<or> e = CHR 0x5C \<or> e = CHR ''/'' then Some ([e], 2)
                 else if e = CHR ''b'' then Some ([CHR 0x08], 2)
                 else if e = CHR ''f'' then Some ([CHR 0x0C], 2)
                 else if e = CHR ''n'' then Some ([CHR 0x0A], 2)
                 else if e = CHR ''r'' then Some ([CHR 0x0D], 2)
                 else if e = CHR ''t'' then Some ([CHR 0x09], 2)
                 else if e = CHR ''u'' then
                   (case getu4 es of
                      None \<Rightarrow> None
                    | Some rr \<Rightarrow>
                        if 0xD800 \<le> rr \<and> rr \<le> 0xDFFF then
                          (case (if take 2 (drop 4 es) = [CHR 0x5C, CHR ''u'']
                                 then getu4 (drop 6 es) else None) of
                             None \<Rightarrow> Some (replacementChar, 6)
                           | Some rr1 \<Rightarrow>
                               if rr < 0xDC00 \<and> 0xDC00 \<le> rr1 \<and> rr1 \<le> 0xDFFF
                               then Some (encodeRune ((rr - 0xD800) * 1024 + (rr1 - 0xDC00) + 0x10000), 12)
                               else Some (replacementChar, 6))
                        else Some (encodeRune rr, 6))
                 else None)
          else if (of_char c :: nat) < 0x80 then Some ([c], 1)
          else if runeLen cs = 0 then Some (replacementChar, 1)
          else Some (take (runeLen cs) cs, runeLen cs))"

text \<open>
  The text after an opening quote: the string it denotes and what follows the closing
  quote, or \<open>None\<close> when the literal is malformed or has no closing quote.
\<close>

fun unquoteBody :: "char list \<Rightarrow> (string \<times> char list) option" where
  "unquoteBody [] = None"
| "unquoteBody (c # cs) =
     (if c = CHR 0x22 then Some ([], cs)
      else (case stringItem (c # cs) of
              None \<Rightarrow> None
            | Some (bs, n) \<Rightarrow> prepend bs (unquoteBody (drop (n - 1) cs))))"

text \<open>
  A number literal at the head of the text and what follows it: an optional minus sign,
  an integer part without a leading zero (or the single digit zero), an optional
  fraction, an optional exponent.
\<close>

definition lexDigits :: "char list \<Rightarrow> (string \<times> char list) option" where
  "lexDigits cs =
     (if takeWhile isDigit cs = [] then None
      else Some (takeWhile isDigit cs, dropWhile isDigit cs))"

definition lexInt :: "char list \<Rightarrow> (string \<times> char list) option" where
  "lexInt cs =
     (case cs of
        [] \<Rightarrow> None
      | d # r \<Rightarrow>
          if d = CHR ''0'' then Some ([d], r)
          else if isDigit d then Some (d # takeWhile isDigit r, dropWhile isDigit r)
          else None)"

definition lexFrac :: "char list \<Rightarrow> (string \<times> char list) option" where
  "lexFrac cs =
     (case cs of
        [] \<Rightarrow> Some ([], cs)
      | d # r \<Rightarrow>
          if d = CHR ''.'' then prepend [d] (lexDigits r)
          else Some ([], cs))"

definition lexExp :: "char list \<Rightarrow> (string \<times> char list) option" where
  "lexExp cs =
     (case cs of
        [] \<Rightarrow> Some ([], cs)
      | e # r \<Rightarrow>
          if e = CHR ''e'' \<or> e = CHR ''E'' then
            (case r of
               [] \<Rightarrow> None
             | sg # r' \<Rightarrow>
                 if sg = CHR ''+'' \<or> sg = CHR ''-'' then prepend [e, sg] (lexDigits r')
                 else prepend [e] (lexDigits r))
          else Some ([], cs))"

definition lexNumber :: "char list \<Rightarrow> (string \<times> char list) option" where
  "lexNumber cs =
     (case (case cs of
              [] \<Rightarrow> None
            | c # r \<Rightarrow> if c = CHR ''-'' then prepend [c] (lexInt r) else lexInt cs) of
        None \<Rightarrow> None
      | Some (i, r1) \<Rightarrow>
          (case lexFrac r1 of
             None \<Rightarrow> None
           | Some (f, r2) \<Rightarrow>
               (case lexExp r2 of
                  None \<Rightarrow> None
                | Some (x, r3) \<Rightarrow> Some (i @ f @ x, r3))))"

definition cons_token :: "token \<Rightarrow> token list option \<Rightarrow> token list option" where
  "cons_token t r = (case r of None \<Rightarrow> None | Some ts \<Rightarrow> Some (t # ts))"

lemma prepend_Some:
  "prepend xs r = Some (s, rest) \<Longrightarrow> \<exists>s'. r = Some (s', rest)"
  by (auto simp: prepend_def split: option.splits)

lemma unquoteBody_shorter:
  "unquoteBody cs = Some (s, rest) \<Longrightarrow> length rest < length cs"
proof (induction cs arbitrary: s rest rule: unquoteBody.induct)
  case 1
  then show ?case by simp
next
  case (2 c cs)
  show ?case
  proof (cases "c = CHR 0x22")
    case True
    with "2.prems" show ?thesis by simp
  next
    case False
    with "2.prems" obtain bs n s' where
      it: "stringItem (c # cs) = Some (bs, n)" and
      r: "unquoteBody (drop (n - 1) cs) = Some (s', rest)"
      by (auto split: option.splits dest!: prepend_Some)
    from "2.IH" [OF False it refl r] 
    have "length rest < length (drop (n - 1) cs)" .
    then show ?thesis by simp
  qed
qed

lemma lexDigits_shorter: "lexDigits cs = Some (s, rest) \<Longrightarrow> length rest \<le> length cs"
  by (auto simp: lexDigits_def length_dropWhile_le split: if_splits)

lemma lexInt_shorter: "lexInt cs = Some (s, rest) \<Longrightarrow> length rest < length cs"
  by (auto simp: lexInt_def le_imp_less_Suc length_dropWhile_le split: list.splits if_splits)

lemma lexFrac_shorter: "lexFrac cs = Some (s, rest) \<Longrightarrow> length rest \<le> length cs"
  by (auto simp: lexFrac_def split: list.splits if_splits
      dest!: prepend_Some lexDigits_shorter)

lemma lexExp_shorter: "lexExp cs = Some (s, rest) \<Longrightarrow> length rest \<le> length cs"
  by (auto simp: lexExp_def split: list.splits if_splits
      dest!: prepend_Some lexDigits_shorter)

lemma lexNumber_shorter:
  assumes "lexNumber cs = Some (s, rest)"
  shows "length rest < length cs"
proof -
  from assms obtain i r1 f r2 x where
    a: "(case cs of [] \<Rightarrow> None
         | c # r \<Rightarrow> if c = CHR ''-'' then prepend [c] (lexInt r) else lexInt cs) = Some (i, r1)"
    and b: "lexFrac r1 = Some (f, r2)" and c: "lexExp r2 = Some (x, rest)"
    by (auto simp: lexNumber_def split: option.splits)
  from a have "length r1 < length cs"
    by (auto split: list.splits if_splits dest!: prepend_Some lexInt_shorter)
  with lexFrac_shorter [OF b] lexExp_shorter [OF c] show ?thesis by simp
qed


text \<open>The tokens of a text; \<open>None\<close> when some byte starts no token.\<close>

function lex :: "char list \<Rightarrow> token list option" where
  "lex [] = Some []"
| "lex (c # cs) =
     (if isSpace c then lex cs
      else if c = CHR ''{'' then cons_token TLBrace (lex cs)
      else if c = CHR ''}'' then cons_token TRBrace (lex cs)
      else if c = CHR ''['' then cons_token TLBracket (lex cs)
      else if c = CHR '']'' then cons_token TRBracket (lex cs)
      else if c = CHR '':'' then cons_token TColon (lex cs)
      else if c = CHR '','' then cons_token TComma (lex cs)
      else if c = CHR 0x22 then
        (case unquoteBody cs of
           None \<Rightarrow> None
         | Some (s, r) \<Rightarrow> cons_token (TString s) (lex r))
      else if c = CHR ''-'' \<or> isDigit c then
        (case lexNumber (c # cs) of
           None \<Rightarrow> None
         | Some (n, r) \<Rightarrow> cons_token (TNumber n) (lex r))
      else if take 4 (c # cs) = ''true'' then cons_token TTrue (lex (drop 3 cs))
      else if take 5 (c # cs) = ''false'' then cons_token TFalse (lex (drop 4 cs))
      else if take 4 (c # cs) = ''null'' then cons_token TNull (lex (drop 3 cs))
      else None)"
  by pat_completeness auto
termination
proof (relation "measure length", goal_cases)
  case (9 c cs x2 s r)
  then show ?case using unquoteBody_shorter [of cs s r] by simp
next
  case (10 c cs x2 n r)
  then show ?case using lexNumber_shorter [of "c # cs" n r] by simp
qed simp_all

text \<open>
  The grammar is checked by a pushdown automaton over the tokens, one step per token, as
  the library's scanner does over bytes. The stack holds the arrays and objects that are
  still open, with the elements and members read so far; an object frame also holds the
  member name that waits for its value. The library refuses a text nested deeper than
  \<^verbatim>\<open>maxNestingDepth\<close>.
\<close>

datatype frame =
    ArrayFrame "json list"
  | ObjectFrame "(string \<times> json) list" "string option"

datatype pstate =
    BeginValue | BeginValueOrEnd | BeginKeyOrEnd | BeginKey | AfterKey | AfterValue
  | Done json

definition maxNestingDepth :: nat where
  "maxNestingDepth = 10000"

definition complete :: "json \<Rightarrow> frame list \<Rightarrow> (pstate \<times> frame list) option" where
  "complete v st =
     (case st of
        [] \<Rightarrow> Some (Done v, [])
      | ArrayFrame xs # st' \<Rightarrow> Some (AfterValue, ArrayFrame (xs @ [v]) # st')
      | ObjectFrame ms (Some k) # st' \<Rightarrow> Some (AfterValue, ObjectFrame (ms @ [(k, v)]) None # st')
      | ObjectFrame ms None # st' \<Rightarrow> None)"

definition push :: "pstate \<Rightarrow> frame \<Rightarrow> frame list \<Rightarrow> (pstate \<times> frame list) option" where
  "push p f st = (if length (f # st) \<le> maxNestingDepth then Some (p, f # st) else None)"

definition closeArray :: "frame list \<Rightarrow> (pstate \<times> frame list) option" where
  "closeArray st = (case st of ArrayFrame xs # st' \<Rightarrow> complete (JArray xs) st' | _ \<Rightarrow> None)"

definition closeObject :: "frame list \<Rightarrow> (pstate \<times> frame list) option" where
  "closeObject st =
     (case st of ObjectFrame ms None # st' \<Rightarrow> complete (JObject ms) st' | _ \<Rightarrow> None)"

definition beginValue :: "token \<Rightarrow> frame list \<Rightarrow> (pstate \<times> frame list) option" where
  "beginValue t st =
     (case t of
        TLBrace \<Rightarrow> push BeginKeyOrEnd (ObjectFrame [] None) st
      | TLBracket \<Rightarrow> push BeginValueOrEnd (ArrayFrame []) st
      | TString s \<Rightarrow> complete (JString s) st
      | TNumber n \<Rightarrow> complete (JNumber n) st
      | TTrue \<Rightarrow> complete (JBool True) st
      | TFalse \<Rightarrow> complete (JBool False) st
      | TNull \<Rightarrow> complete JNull st
      | _ \<Rightarrow> None)"

definition beginKey :: "token \<Rightarrow> frame list \<Rightarrow> (pstate \<times> frame list) option" where
  "beginKey t st =
     (case (t, st) of
        (TString k, ObjectFrame ms None # st') \<Rightarrow> Some (AfterKey, ObjectFrame ms (Some k) # st')
      | _ \<Rightarrow> None)"

definition pstep :: "token \<Rightarrow> pstate \<Rightarrow> frame list \<Rightarrow> (pstate \<times> frame list) option" where
  "pstep t p st =
     (case p of
        BeginValue \<Rightarrow> beginValue t st
      | BeginValueOrEnd \<Rightarrow> (if t = TRBracket then closeArray st else beginValue t st)
      | BeginKeyOrEnd \<Rightarrow> (if t = TRBrace then closeObject st else beginKey t st)
      | BeginKey \<Rightarrow> beginKey t st
      | AfterKey \<Rightarrow> (if t = TColon then Some (BeginValue, st) else None)
      | AfterValue \<Rightarrow>
          (if t = TComma then
             (case st of
                ArrayFrame xs # st' \<Rightarrow> Some (BeginValue, st)
              | ObjectFrame ms k # st' \<Rightarrow> Some (BeginKey, st)
              | [] \<Rightarrow> None)
           else if t = TRBracket then closeArray st
           else if t = TRBrace then closeObject st
           else None)
      | Done v \<Rightarrow> None)"

fun prun :: "token list \<Rightarrow> pstate \<Rightarrow> frame list \<Rightarrow> json option" where
  "prun [] p st = (case p of Done v \<Rightarrow> Some v | _ \<Rightarrow> None)"
| "prun (t # ts) p st = (case pstep t p st of None \<Rightarrow> None | Some (p', st') \<Rightarrow> prun ts p' st')"

text \<open>
  The value a text denotes, or \<open>None\<close> when the text is not one well-formed JSON
  value (this includes the empty text). Members of an object are kept in the order of
  the text, duplicates included.
\<close>

definition parseJSON :: "string \<Rightarrow> json option" where
  "parseJSON text = (case lex text of None \<Rightarrow> None | Some ts \<Rightarrow> prun ts BeginValue [])"

section \<open>Storing a JSON value into a struct\<close>

text \<open>
  A member of a JSON object goes to the struct field whose name equals the member's
  name, or else equals it under the library's case folding. All field names of this
  program are ASCII, so the folding is that of the ASCII letters, together with the two
  characters outside ASCII that fold to ASCII letters: U+017F to \<open>S\<close> and U+212A to
  \<open>K\<close>.
\<close>

fun foldName :: "char list \<Rightarrow> char list" where
  "foldName [] = []"
| "foldName (c # cs) =
     (if 97 \<le> (of_char c :: nat) \<and> (of_char c :: nat) \<le> 122
        then char_of ((of_char c :: nat) - 32) # foldName cs
      else if c = CHR 0xC5 \<and> take 1 cs = [CHR 0xBF] then CHR ''S'' # foldName (drop 1 cs)
      else if c = CHR 0xE2 \<and> take 2 cs = [CHR 0x84, CHR 0xAA] then CHR ''K'' # foldName (drop 2 cs)
      else c # foldName cs)"

definition matchesField :: "string \<Rightarrow> string \<Rightarrow> bool" where
  "matchesField name key = (key = name \<or> foldName key = foldName name)"

text \<open>
  \<^verbatim>\<open>PriceOrHeartbeat\<close> and \<^verbatim>\<open>TransactionOrHeartbeat\<close> have the single field
  \<^verbatim>\<open>Type string `json:"type"`\<close>. \<open>storeType\<close> walks the members of an object in
  the order of the text: a string value is stored into \<^verbatim>\<open>Type\<close>, \<^verbatim>\<open>null\<close> leaves it as
  it is, any other value is an error; members with other names are skipped. The result
  is the final value of \<^verbatim>\<open>Type\<close>, or \<open>None\<close> on an error.
\<close>

fun storeType :: "(string \<times> json) list \<Rightarrow> string \<Rightarrow> string option" where
  "storeType [] ty = Some ty"
| "storeType ((k, v) # ms) ty =
     (if matchesField ''type'' k then
        (case v of
           JString s \<Rightarrow> storeType ms s
         | JNull \<Rightarrow> storeType ms ty
         | _ \<Rightarrow> None)
      else storeType ms ty)"

text \<open>
  \<^verbatim>\<open>json.Unmarshal(line, &v)\<close> for a fresh \<^verbatim>\<open>v\<close> of either struct type: the value of
  \<^verbatim>\<open>v.Type\<close> afterwards, or the error. A text that is not well-formed JSON is an error;
  so is a value that is neither an object nor \<^verbatim>\<open>null\<close>; \<^verbatim>\<open>null\<close> leaves the struct
  at its zero value.
\<close>

definition unmarshalTypeOnly :: "string \<Rightarrow> error + string" where
  "unmarshalTypeOnly line =
     (case parseJSON line of
        None \<Rightarrow> Inl DecodeError
      | Some JNull \<Rightarrow> Inr []
      | Some (JObject ms) \<Rightarrow>
          (case storeType ms [] of None \<Rightarrow> Inl DecodeError | Some ty \<Rightarrow> Inr ty)
      | Some _ \<Rightarrow> Inl DecodeError)"

definition unmarshal_PriceOrHeartbeat :: "string \<Rightarrow> error + string" where
  "unmarshal_PriceOrHeartbeat line = unmarshalTypeOnly line"

definition unmarshal_TransactionOrHeartbeat :: "string \<Rightarrow> error + string" where
  "unmarshal_TransactionOrHeartbeat line = unmarshalTypeOnly line"

section \<open>The live stream consumers\<close>

text \<open>
  What the program exchanges with the network is given from outside. An \<open>exchange\<close>
  is the outcome of one HTTP request: \<^verbatim>\<open>http.NewRequest\<close> failed, \<^verbatim>\<open>client.Do\<close>
  failed, or a response arrived, with its status code, what \<^verbatim>\<open>ioutil.ReadAll\<close> yields
  on its body, and what successive calls of \<^verbatim>\<open>ReadLine\<close> on a \<^verbatim>\<open>bufio.Reader\<close>
  over its body yield.

  One call of \<^verbatim>\<open>ReadLine\<close> yields \<^verbatim>\<open>(line, isPrefix, err)\<close>; the code ignores
  \<^verbatim>\<open>isPrefix\<close>, so a result is the pair of \<^verbatim>\<open>line\<close> (\<open>None\<close> for \<^verbatim>\<open>nil\<close>) and
  \<^verbatim>\<open>err\<close>. The library documents that \<^verbatim>\<open>ReadLine\<close> returns either a non-nil line or
  an error, never both, and that the end of the input is the error \<^verbatim>\<open>io.EOF\<close>:
  \<open>bufioReadLines\<close> gives the results for a body that delivers the lines \<open>ls\<close> and
  then ends with the error \<open>e\<close>.
\<close>

type_synonym readResult = "string option \<times> error option"

datatype exchange =
    NewRequestFailed error
  | DoFailed error
  | Response int "error + string" "readResult list"

definition bufioReadLines :: "string list \<Rightarrow> error \<Rightarrow> readResult list" where
  "bufioReadLines ls e = map (\<lambda>l. (Some l, None)) ls @ [(None, Some e)]"

text \<open>
  What a consumer does, in order: a line printed on standard output, or a value sent on
  \<^verbatim>\<open>heartbeatChannel\<close>. The goroutine that receives from the channel is modelled
  on its own, further down. A consumer either returns (\<open>Returned None\<close> is the \<^verbatim>\<open>nil\<close>
  error) or is still waiting for \<^verbatim>\<open>ReadLine\<close> when the read results given to the
  model are used up.
\<close>

datatype event = Println string | HeartbeatSent

datatype outcome = Returned "error option" | Reading

definition emit :: "event list \<Rightarrow> event list \<times> outcome \<Rightarrow> event list \<times> outcome" where
  "emit evs r = (evs @ fst r, snd r)"

definition stdout :: "event list \<Rightarrow> string list" where
  "stdout evs = concat (map (\<lambda>ev. case ev of Println l \<Rightarrow> [l] | HeartbeatSent \<Rightarrow> []) evs)"

text \<open>
  The \<^verbatim>\<open>for\<close> loop of \<^verbatim>\<open>getStream\<close>. The \<^verbatim>\<open>break\<close> on a \<^verbatim>\<open>nil\<close> line leads to
  the final \<^verbatim>\<open>return err\<close>, where \<^verbatim>\<open>err\<close> is the variable of the function's outer
  scope, which is \<^verbatim>\<open>nil\<close> once the loop has been reached.
\<close>

fun getStream_loop :: "bool \<Rightarrow> int \<Rightarrow> readResult list \<Rightarrow> event list \<times> outcome" where
  "getStream_loop heartbeat heartbeatTimeout [] = ([], Reading)"
| "getStream_loop heartbeat heartbeatTimeout ((line, err) # rest) =
     (case err of
        Some e \<Rightarrow> ([], Returned (Some e))
      | None \<Rightarrow>
          (case line of
             None \<Rightarrow> ([], Returned None)
           | Some l \<Rightarrow>
               (case unmarshal_PriceOrHeartbeat l of
                  Inl e \<Rightarrow> ([], Returned (Some e))
                | Inr ty \<Rightarrow>
                    emit
                      (if ty = ''PRICE'' then [Println l]
                       else if ty = ''HEARTBEAT'' then
                         (if heartbeatTimeout \<noteq> 0 then [HeartbeatSent] else []) @
                         (if heartbeat then [Println l] else [])
                       else [])
                      (getStream_loop heartbeat heartbeatTimeout rest))))"

text \<open>
  \<^verbatim>\<open>getStream\<close>, given what \<^verbatim>\<open>GetCredentials\<close> returned and the outcome of the
  request. The status line written to standard error for a status other than 200 is
  not an event of the model.
\<close>

record Credentials =
  AccountId :: string
  Token :: string

definition getStream ::
  "bool \<Rightarrow> int \<Rightarrow> error + Credentials \<Rightarrow> exchange \<Rightarrow> event list \<times> outcome" where
  "getStream heartbeat heartbeatTimeout credentials ex =
     (case credentials of
        Inl e \<Rightarrow> ([], Returned (Some e))
      | Inr account \<Rightarrow>
          (case ex of
             NewRequestFailed e \<Rightarrow> ([], Returned (Some e))
           | DoFailed e \<Rightarrow> ([], Returned (Some e))
           | Response status all reads \<Rightarrow>
               if status \<noteq> 200 then
                 (case all of
                    Inl e \<Rightarrow> ([], Returned (Some e))
                  | Inr body \<Rightarrow> ([], Returned (Some (ErrorsNew body))))
               else getStream_loop heartbeat heartbeatTimeout reads))"

fun getTransactionStream_loop :: "bool \<Rightarrow> int \<Rightarrow> readResult list \<Rightarrow> event list \<times> outcome" where
  "getTransactionStream_loop heartbeat heartbeatTimeout [] = ([], Reading)"
| "getTransactionStream_loop heartbeat heartbeatTimeout ((line, err) # rest) =
     (case err of
        Some e \<Rightarrow> ([], Returned (Some e))
      | None \<Rightarrow>
          (case line of
             None \<Rightarrow> ([], Returned None)
           | Some l \<Rightarrow>
               (case unmarshal_TransactionOrHeartbeat l of
                  Inl e \<Rightarrow> ([], Returned (Some e))
                | Inr ty \<Rightarrow>
                    emit
                      (if ty = ''HEARTBEAT'' then
                         (if heartbeatTimeout \<noteq> 0 then [HeartbeatSent] else []) @
                         (if heartbeat then [Println l] else [])
                       else [Println l])
                      (getTransactionStream_loop heartbeat heartbeatTimeout rest))))"

definition getTransactionStream ::
  "bool \<Rightarrow> int \<Rightarrow> error + Credentials \<Rightarrow> exchange \<Rightarrow> event list \<times> outcome" where
  "getTransactionStream heartbeat heartbeatTimeout credentials ex =
     (case credentials of
        Inl e \<Rightarrow> ([], Returned (Some e))
      | Inr account \<Rightarrow>
          (case ex of
             NewRequestFailed e \<Rightarrow> ([], Returned (Some e))
           | DoFailed e \<Rightarrow> ([], Returned (Some e))
           | Response status all reads \<Rightarrow>
               if status \<noteq> 200 then
                 (case all of
                    Inl e \<Rightarrow> ([], Returned (Some e))
                  | Inr body \<Rightarrow> ([], Returned (Some (ErrorsNew body))))
               else getTransactionStream_loop heartbeat heartbeatTimeout reads))"

section \<open>The heartbeat watchdog\<close>

text \<open>
  Before their loops, \<^verbatim>\<open>getStream\<close> and \<^verbatim>\<open>getTransactionStream\<close> start a goroutine
  when \<^verbatim>\<open>heartbeatTimeout != 0\<close>. The goroutine repeats one \<^verbatim>\<open>select\<close> between a
  receive on \<^verbatim>\<open>heartbeatChannel\<close> and a receive on \<^verbatim>\<open>time.After(heartbeatTimeout)\<close>,
  a timer created anew each time the \<^verbatim>\<open>select\<close> is entered; the timer's case panics.

  What happens around one \<^verbatim>\<open>select\<close> is given from outside, as the results of
  \<^verbatim>\<open>ReadLine\<close> are: the time from entering the \<^verbatim>\<open>select\<close> after which a sender is
  ready on the channel (\<open>None\<close> when none ever is), in the nanoseconds of
  \<^verbatim>\<open>time.Duration\<close>, and the case Go picks should both be ready at the same moment.
  The timer is ready after \<^verbatim>\<open>heartbeatTimeout\<close>, at once when that is negative. The
  case that is ready first is taken.
\<close>

datatype selectCase = Received | TimedOut

definition selectHeartbeat :: "int \<Rightarrow> int option \<Rightarrow> selectCase \<Rightarrow> selectCase" where
  "selectHeartbeat heartbeatTimeout offer tie =
     (case offer of
        None \<Rightarrow> TimedOut
      | Some d \<Rightarrow>
          if d < max 0 heartbeatTimeout then Received
          else if max 0 heartbeatTimeout < d then TimedOut
          else tie)"

text \<open>
  The goroutine over the \<^verbatim>\<open>select\<close>s it goes through: the number of timers it has
  created and how it stands, in the panic \<^verbatim>\<open>"heartbeat timeout"\<close>, which ends the
  process, or in a \<^verbatim>\<open>select\<close> again when what is given to the model is used up. The
  function of the goroutine has no \<^verbatim>\<open>return\<close>.
\<close>

datatype watchdogOutcome = HeartbeatTimeoutPanic | Selecting

fun watchdog :: "int \<Rightarrow> (int option \<times> selectCase) list \<Rightarrow> nat \<times> watchdogOutcome" where
  "watchdog heartbeatTimeout [] = (0, Selecting)"
| "watchdog heartbeatTimeout ((offer, tie) # rest) =
     (case selectHeartbeat heartbeatTimeout offer tie of
        Received \<Rightarrow>
          (case watchdog heartbeatTimeout rest of (timers, r) \<Rightarrow> (Suc timers, r))
      | TimedOut \<Rightarrow> (1, HeartbeatTimeoutPanic))"

text \<open>
  The guard around the \<^verbatim>\<open>go\<close> statement: \<open>None\<close> when no goroutine is started.
\<close>

definition spawnWatchdog ::
  "int \<Rightarrow> (int option \<times> selectCase) list \<Rightarrow> (nat \<times> watchdogOutcome) option" where
  "spawnWatchdog heartbeatTimeout selects =
     (if heartbeatTimeout \<noteq> 0 then Some (watchdog heartbeatTimeout selects) else None)"

section \<open>Candlesticks and their ordering\<close>

text \<open>
  \<^verbatim>\<open>Candlestick\<close> and \<^verbatim>\<open>CandlestickData\<close> of \<^verbatim>\<open>oanda.go\<close>. The three price
  views are pointers in the source and options here. \<^verbatim>\<open>Time\<close> is a \<^verbatim>\<open>time.Time\<close>;
  the code only compares it with \<^verbatim>\<open>After\<close> and \<^verbatim>\<open>Equal\<close>, which compare the
  instant denoted, so a time is the integer count of nanoseconds of that instant.
  \<^verbatim>\<open>Volume\<close> is a Go \<^verbatim>\<open>int\<close> that is only compared, never computed with.
\<close>

record CandlestickData =
  O :: string
  H :: string
  L :: string
  C :: string

record Candlestick =
  Complete :: bool
  Volume :: int
  Time :: int
  Mid :: "CandlestickData option"
  Bid :: "CandlestickData option"
  Ask :: "CandlestickData option"

definition NewerThan :: "Candlestick \<Rightarrow> Candlestick \<Rightarrow> bool" where
  "NewerThan self other =
     (if Time self > Time other then True
      else if Time self = Time other then
        (if Complete self = False \<and> Complete other = False then Volume self > Volume other
         else if Complete self = True \<and> Complete other = False then True
         else False)
      else False)"

section \<open>The candle poller\<close>

text \<open>
  \<^verbatim>\<open>CandlesResponseBody\<close>. \<^verbatim>\<open>Candles\<close> is a pointer to a slice: \<open>None\<close> is the
  \<^verbatim>\<open>nil\<close> pointer.
\<close>

record CandlesResponseBody =
  Candles :: "Candlestick list option"
  Granularity :: string
  Instrument :: string

text \<open>
  Storing an object into a \<^verbatim>\<open>CandlesResponseBody\<close>. How the library decodes a JSON
  value other than \<^verbatim>\<open>null\<close> into the slice of candles (times, numbers and price
  views) is a parameter: \<open>slice cur v\<close> is the slice the pointer refers to after
  decoding \<open>v\<close> when the field held \<open>cur\<close> before, or \<open>None\<close> on an error.
  \<^verbatim>\<open>null\<close> sets the pointer to \<^verbatim>\<open>nil\<close>.
\<close>

type_synonym sliceDecoder = "Candlestick list option \<Rightarrow> json \<Rightarrow> Candlestick list option"

fun storeBody ::
  "sliceDecoder \<Rightarrow> (string \<times> json) list \<Rightarrow> CandlesResponseBody \<Rightarrow> CandlesResponseBody option" where
  "storeBody slice [] body = Some body"
| "storeBody slice ((k, v) # ms) body =
     (if matchesField ''candles'' k then
        (case v of
           JNull \<Rightarrow> storeBody slice ms (body\<lparr>Candles := None\<rparr>)
         | _ \<Rightarrow>
             (case slice (Candles body) v of
                None \<Rightarrow> None
              | Some cs \<Rightarrow> storeBody slice ms (body\<lparr>Candles := Some cs\<rparr>)))
      else if matchesField ''granularity'' k then
        (case v of
           JString s \<Rightarrow> storeBody slice ms (body\<lparr>Granularity := s\<rparr>)
         | JNull \<Rightarrow> storeBody slice ms body
         | _ \<Rightarrow> None)
      else if matchesField ''instrument'' k then
        (case v of
           JString s \<Rightarrow> storeBody slice ms (body\<lparr>Instrument := s\<rparr>)
         | JNull \<Rightarrow> storeBody slice ms body
         | _ \<Rightarrow> None)
      else storeBody slice ms body)"

definition unmarshal_CandlesResponseBody ::
  "sliceDecoder \<Rightarrow> string \<Rightarrow> error + CandlesResponseBody" where
  "unmarshal_CandlesResponseBody slice bytes =
     (case parseJSON bytes of
        None \<Rightarrow> Inl DecodeError
      | Some JNull \<Rightarrow> Inr \<lparr>Candles = None, Granularity = [], Instrument = []\<rparr>
      | Some (JObject ms) \<Rightarrow>
          (case storeBody slice ms \<lparr>Candles = None, Granularity = [], Instrument = []\<rparr> of
             None \<Rightarrow> Inl DecodeError
           | Some body \<Rightarrow> Inr body)
      | Some _ \<Rightarrow> Inl DecodeError)"

text \<open>
  \<^verbatim>\<open>getCandlesForStream\<close>, given the outcome of its request. The body is read in full
  before the status is looked at.
\<close>

definition getCandlesForStream ::
  "sliceDecoder \<Rightarrow> exchange \<Rightarrow> error + Candlestick list option" where
  "getCandlesForStream slice ex =
     (case ex of
        NewRequestFailed e \<Rightarrow> Inl e
      | DoFailed e \<Rightarrow> Inl e
      | Response status all reads \<Rightarrow>
          (case all of
             Inl e \<Rightarrow> Inl e
           | Inr bytes \<Rightarrow>
               if status \<noteq> 200 then Inl (ErrorsNew bytes)
               else (case unmarshal_CandlesResponseBody slice bytes of
                       Inl e \<Rightarrow> Inl e
                     | Inr body \<Rightarrow> Inr (Candles body))))"

text \<open>
  The cursor of the poller: the variables \<^verbatim>\<open>lastCandle\<close> and \<^verbatim>\<open>from\<close> of
  \<^verbatim>\<open>getCandlesStream\<close> (\<open>from\<close> is a keyword here, hence \<open>fromTime\<close>).
\<close>

record PollCursor =
  lastCandle :: "Candlestick option"
  fromTime :: int

text \<open>
  The inner loop over one batch: the lines printed, and the error of \<^verbatim>\<open>json.Marshal\<close>
  that ended the loop, if any. \<^verbatim>\<open>json.Marshal\<close> on a candle is a parameter;
  \<open>lastC\<close> is the value of \<^verbatim>\<open>lastCandle\<close> during the batch.
\<close>

fun printCandles ::
  "(Candlestick \<Rightarrow> error + string) \<Rightarrow> bool \<Rightarrow> Candlestick option \<Rightarrow> Candlestick list
     \<Rightarrow> string list \<times> error option" where
  "printCandles marshal completedOnly lastC [] = ([], None)"
| "printCandles marshal completedOnly lastC (candle # rest) =
     (if completedOnly \<and> Complete candle = False then printCandles marshal completedOnly lastC rest
      else if (case lastC of None \<Rightarrow> True | Some l \<Rightarrow> NewerThan candle l) then
        (case marshal candle of
           Inl e \<Rightarrow> ([], Some e)
         | Inr bytes \<Rightarrow>
             (case printCandles marshal completedOnly lastC rest of
                (out, r) \<Rightarrow> (bytes # out, r)))
      else printCandles marshal completedOnly lastC rest)"

text \<open>
  One turn of the outer loop after the request: the lines printed and how the turn
  ends. Dereferencing a \<^verbatim>\<open>nil\<close> batch pointer in \<^verbatim>\<open>range *candles\<close> is a panic.
\<close>

datatype 'a flow = Continue 'a | Return error | Panic

definition processBatch ::
  "(Candlestick \<Rightarrow> error + string) \<Rightarrow> bool \<Rightarrow> PollCursor \<Rightarrow> Candlestick list option
     \<Rightarrow> string list \<times> PollCursor flow" where
  "processBatch marshal completedOnly cur batch =
     (case batch of
        None \<Rightarrow> ([], Panic)
      | Some candles \<Rightarrow>
          (case printCandles marshal completedOnly (lastCandle cur) candles of
             (out, Some e) \<Rightarrow> (out, Return e)
           | (out, None) \<Rightarrow>
               (out,
                Continue
                  (if length candles \<noteq> 0 then
                     \<lparr>lastCandle = Some (candles ! (length candles - 1)),
                      fromTime = Time (candles ! (length candles - 1))\<rparr>
                   else cur))))"

text \<open>
  The outer loop. Each turn calls \<^verbatim>\<open>getCandlesForStream\<close> with the current
  \<^verbatim>\<open>from\<close>; what the call returns is given from outside, one function of \<^verbatim>\<open>from\<close>
  for each turn. The loop returns on an error only; when the turns given to the model
  are used up it is still polling, with the cursor it has reached. The sleep between
  turns changes nothing in the state.
\<close>

datatype pollOutcome = Failed error | Panicked | Polling PollCursor

fun getCandlesStream_loop ::
  "(Candlestick \<Rightarrow> error + string) \<Rightarrow> bool \<Rightarrow> PollCursor
     \<Rightarrow> (int \<Rightarrow> error + Candlestick list option) list \<Rightarrow> string list \<times> pollOutcome" where
  "getCandlesStream_loop marshal completedOnly cur [] = ([], Polling cur)"
| "getCandlesStream_loop marshal completedOnly cur (fetch # rest) =
     (case fetch (fromTime cur) of
        Inl e \<Rightarrow> ([], Failed e)
      | Inr batch \<Rightarrow>
          (case processBatch marshal completedOnly cur batch of
             (out, Return e) \<Rightarrow> (out, Failed e)
           | (out, Panic) \<Rightarrow> (out, Panicked)
           | (out, Continue cur') \<Rightarrow>
               (case getCandlesStream_loop marshal completedOnly cur' rest of
                  (out', r) \<Rightarrow> (out @ out', r))))"

definition getCandlesStream ::
  "(Candlestick \<Rightarrow> error + string) \<Rightarrow> sliceDecoder \<Rightarrow> int \<Rightarrow> bool \<Rightarrow> error + Credentials
     \<Rightarrow> (int \<Rightarrow> exchange) list \<Rightarrow> string list \<times> pollOutcome" where
  "getCandlesStream marshal slice from0 completedOnly credentials servers =
     (case credentials of
        Inl e \<Rightarrow> ([], Failed e)
      | Inr account \<Rightarrow>
          getCandlesStream_loop marshal completedOnly \<lparr>lastCandle = None, fromTime = from0\<rparr>
            (map (\<lambda>server from. getCandlesForStream slice (server from)) servers))"

section \<open>The ordering rule\<close>

text \<open>
  C1. \<^verbatim>\<open>NewerThan\<close> is decided by the timestamps when they differ: a later candidate
  is newer, an earlier one is not, whatever the completeness flags and volumes are. At
  equal timestamps the candidate is newer exactly when it is complete and the other
  candle is not, or when both are incomplete and the candidate has the larger volume.
\<close>

theorem NewerThan_characterisation:
  "(Time b > Time a \<longrightarrow> NewerThan b a) \<and>
   (Time b < Time a \<longrightarrow> \<not> NewerThan b a) \<and>
   (Time b = Time a \<longrightarrow>
      NewerThan b a =
        ((Complete b \<and> \<not> Complete a) \<or>
         (\<not> Complete b \<and> \<not> Complete a \<and> Volume b > Volume a)))"
  by (auto simp: NewerThan_def)

theorem NewerThan_characterisation_witness:
  "NewerThan \<lparr>Complete = False, Volume = 0, Time = 2, Mid = None, Bid = None, Ask = None\<rparr>
             \<lparr>Complete = True, Volume = 9, Time = 1, Mid = None, Bid = None, Ask = None\<rparr> \<and>
   \<not> NewerThan \<lparr>Complete = True, Volume = 9, Time = 1, Mid = None, Bid = None, Ask = None\<rparr>
               \<lparr>Complete = False, Volume = 0, Time = 2, Mid = None, Bid = None, Ask = None\<rparr> \<and>
   NewerThan \<lparr>Complete = True, Volume = 5, Time = 1, Mid = None, Bid = None, Ask = None\<rparr>
             \<lparr>Complete = False, Volume = 3, Time = 1, Mid = None, Bid = None, Ask = None\<rparr>"
  using
    NewerThan_characterisation
      [of "\<lparr>Complete = True, Volume = 9, Time = 1, Mid = None, Bid = None, Ask = None\<rparr>"
          "\<lparr>Complete = False, Volume = 0, Time = 2, Mid = None, Bid = None, Ask = None\<rparr>"]
    NewerThan_characterisation
      [of "\<lparr>Complete = False, Volume = 0, Time = 2, Mid = None, Bid = None, Ask = None\<rparr>"
          "\<lparr>Complete = True, Volume = 9, Time = 1, Mid = None, Bid = None, Ask = None\<rparr>"]
    NewerThan_characterisation
      [of "\<lparr>Complete = False, Volume = 3, Time = 1, Mid = None, Bid = None, Ask = None\<rparr>"
          "\<lparr>Complete = True, Volume = 5, Time = 1, Mid = None, Bid = None, Ask = None\<rparr>"]
  by simp

section \<open>The poller: emission and cursor\<close>

lemma printCandles_completedOnly_filter:
  "printCandles marshal True lastC candles =
   printCandles marshal completedOnly lastC (filter Complete candles)"
  by (induction candles) (auto split: option.splits sum.splits prod.splits)

lemma printCandles_skips_replayed:
  "Complete c \<Longrightarrow>
   printCandles marshal completedOnly (Some c) (pre @ c # post) =
   printCandles marshal completedOnly (Some c) (pre @ post)"
  by (induction pre) (auto simp: NewerThan_def split: sum.splits prod.splits)

lemma printCandles_lines:
  "printCandles marshal completedOnly lastC candles = (out, r) \<Longrightarrow>
   l \<in> set out \<Longrightarrow>
   \<exists>c \<in> set candles. marshal c = Inr l \<and> (completedOnly \<longrightarrow> Complete c)"
  by (induction candles arbitrary: out r)
     (auto split: option.splits sum.splits prod.splits if_splits)

text \<open>
  C2. Started with no last candle and given the batch with the one bar of 10:00
  (incomplete, volume 3), then the batch with the bar of 10:00 (complete, volume 5) and
  the bar of 10:05 (incomplete, volume 1), with completed-only mode off, the poller
  prints one line in the first turn, for the incomplete 10:00 bar, and two lines in the
  second turn: the completed 10:00 bar, then the 10:05 bar. Times are nanoseconds since
  midnight; the price views are arbitrary; \<open>l1\<close>, \<open>l2\<close>, \<open>l3\<close> are what
  \<^verbatim>\<open>json.Marshal\<close> yields for the three bars.
\<close>

theorem poller_scenario:
  "marshal \<lparr>Complete = False, Volume = 3, Time = 36000000000000, Mid = m1, Bid = b1, Ask = a1\<rparr> = Inr l1 \<Longrightarrow>
   marshal \<lparr>Complete = True, Volume = 5, Time = 36000000000000, Mid = m2, Bid = b2, Ask = a2\<rparr> = Inr l2 \<Longrightarrow>
   marshal \<lparr>Complete = False, Volume = 1, Time = 36300000000000, Mid = m3, Bid = b3, Ask = a3\<rparr> = Inr l3 \<Longrightarrow>
   getCandlesStream_loop marshal False \<lparr>lastCandle = None, fromTime = from0\<rparr>
     [\<lambda>from. Inr (Some
        [\<lparr>Complete = False, Volume = 3, Time = 36000000000000, Mid = m1, Bid = b1, Ask = a1\<rparr>])] =
     ([l1],
      Polling \<lparr>lastCandle =
          Some \<lparr>Complete = False, Volume = 3, Time = 36000000000000, Mid = m1, Bid = b1, Ask = a1\<rparr>,
        fromTime = 36000000000000\<rparr>) \<and>
   getCandlesStream_loop marshal False
     \<lparr>lastCandle =
          Some \<lparr>Complete = False, Volume = 3, Time = 36000000000000, Mid = m1, Bid = b1, Ask = a1\<rparr>,
      fromTime = 36000000000000\<rparr>
     [\<lambda>from. Inr (Some
        [\<lparr>Complete = True, Volume = 5, Time = 36000000000000, Mid = m2, Bid = b2, Ask = a2\<rparr>,
         \<lparr>Complete = False, Volume = 1, Time = 36300000000000, Mid = m3, Bid = b3, Ask = a3\<rparr>])] =
     ([l2, l3],
      Polling \<lparr>lastCandle =
          Some \<lparr>Complete = False, Volume = 1, Time = 36300000000000, Mid = m3, Bid = b3, Ask = a3\<rparr>,
        fromTime = 36300000000000\<rparr>) \<and>
   getCandlesStream_loop marshal False \<lparr>lastCandle = None, fromTime = from0\<rparr>
     [\<lambda>from. Inr (Some
        [\<lparr>Complete = False, Volume = 3, Time = 36000000000000, Mid = m1, Bid = b1, Ask = a1\<rparr>]),
      \<lambda>from. Inr (Some
        [\<lparr>Complete = True, Volume = 5, Time = 36000000000000, Mid = m2, Bid = b2, Ask = a2\<rparr>,
         \<lparr>Complete = False, Volume = 1, Time = 36300000000000, Mid = m3, Bid = b3, Ask = a3\<rparr>])] =
     ([l1, l2, l3],
      Polling \<lparr>lastCandle =
          Some \<lparr>Complete = False, Volume = 1, Time = 36300000000000, Mid = m3, Bid = b3, Ask = a3\<rparr>,
        fromTime = 36300000000000\<rparr>)"
  by (simp add: processBatch_def NewerThan_def)


theorem poller_scenario_witness:
  "getCandlesStream_loop (\<lambda>c. Inr (if Complete c then ''complete'' else ''incomplete'')) False
     \<lparr>lastCandle = None, fromTime = 0\<rparr>
     [\<lambda>from. Inr (Some
        [\<lparr>Complete = False, Volume = 3, Time = 36000000000000, Mid = None, Bid = None, Ask = None\<rparr>]),
      \<lambda>from. Inr (Some
        [\<lparr>Complete = True, Volume = 5, Time = 36000000000000, Mid = None, Bid = None, Ask = None\<rparr>,
         \<lparr>Complete = False, Volume = 1, Time = 36300000000000, Mid = None, Bid = None, Ask = None\<rparr>])] =
     ([''incomplete'', ''complete'', ''incomplete''],
      Polling \<lparr>lastCandle =
          Some \<lparr>Complete = False, Volume = 1, Time = 36300000000000, Mid = None, Bid = None, Ask = None\<rparr>,
        fromTime = 36300000000000\<rparr>)"
proof -
  let ?m = "\<lambda>c::Candlestick. (Inr (if Complete c then ''complete'' else ''incomplete'') :: error + string)"
  have h1: "?m \<lparr>Complete = False, Volume = 3, Time = 36000000000000, Mid = None, Bid = None, Ask = None\<rparr> = Inr ''incomplete''"
    by simp
  have h2: "?m \<lparr>Complete = True, Volume = 5, Time = 36000000000000, Mid = None, Bid = None, Ask = None\<rparr> = Inr ''complete''"
    by simp
  have h3: "?m \<lparr>Complete = False, Volume = 1, Time = 36300000000000, Mid = None, Bid = None, Ask = None\<rparr> = Inr ''incomplete''"
    by simp
  from poller_scenario [of ?m, OF h1 h2 h3, of 0]
  show ?thesis by blast
qed

text \<open>
  C5. After a turn of the poller that goes on to the next turn: if the batch was not
  empty, \<^verbatim>\<open>lastCandle\<close> is the final bar of the batch, whatever its completeness and
  whether or not it was printed, and \<^verbatim>\<open>from\<close> is that bar's time; if the batch was
  empty, \<^verbatim>\<open>lastCandle\<close> and \<^verbatim>\<open>from\<close> are as before.
\<close>

theorem cursor_after_cycle:
  "processBatch marshal completedOnly cur (Some candles) = (out, Continue cur') \<Longrightarrow>
   (candles \<noteq> [] \<longrightarrow>
      lastCandle cur' = Some (last candles) \<and> fromTime cur' = Time (last candles)) \<and>
   (candles = [] \<longrightarrow> cur' = cur)"
  by (auto simp: processBatch_def last_conv_nth split: prod.splits option.splits)

theorem cursor_after_cycle_witness:
  "processBatch (\<lambda>c. Inr ''bar'') True \<lparr>lastCandle = None, fromTime = 0\<rparr>
     (Some [\<lparr>Complete = False, Volume = 3, Time = 7, Mid = None, Bid = None, Ask = None\<rparr>])
   = ([], Continue \<lparr>lastCandle =
         Some \<lparr>Complete = False, Volume = 3, Time = 7, Mid = None, Bid = None, Ask = None\<rparr>,
       fromTime = 7\<rparr>)"
proof -
  obtain out fl where r: "processBatch (\<lambda>c. Inr ''bar'') True \<lparr>lastCandle = None, fromTime = 0\<rparr>
     (Some [\<lparr>Complete = False, Volume = 3, Time = 7, Mid = None, Bid = None, Ask = None\<rparr>]) = (out, fl)"
    by (cases "processBatch (\<lambda>c. Inr ''bar'') True \<lparr>lastCandle = None, fromTime = 0\<rparr>
     (Some [\<lparr>Complete = False, Volume = 3, Time = 7, Mid = None, Bid = None, Ask = None\<rparr>])") 
  have "out = []" and "\<exists>cur'. fl = Continue cur'"
    using r by (auto simp: processBatch_def)
  then obtain cur' where c: "fl = Continue cur'" by blast
  from cursor_after_cycle [OF r [unfolded c]] \<open>out = []\<close> r c
  show ?thesis by simp
qed

text \<open>
  C8. When \<^verbatim>\<open>lastCandle\<close> is a completed candle and the next batch delivers the same
  candle again, it is not printed a second time: a completed candle is not newer than
  itself, so the batch prints what it would print without that candle, and the batch
  that holds that candle alone prints nothing.
\<close>

theorem replay_of_completed_candle:
  "Complete c \<Longrightarrow>
   \<not> NewerThan c c \<and>
   printCandles marshal completedOnly (Some c) (pre @ c # post) =
     printCandles marshal completedOnly (Some c) (pre @ post) \<and>
   processBatch marshal completedOnly \<lparr>lastCandle = Some c, fromTime = f\<rparr> (Some [c]) =
     ([], Continue \<lparr>lastCandle = Some c, fromTime = Time c\<rparr>)"
  by (simp add: NewerThan_def processBatch_def printCandles_skips_replayed)

theorem replay_of_completed_candle_witness:
  "\<not> NewerThan \<lparr>Complete = True, Volume = 5, Time = 7, Mid = None, Bid = None, Ask = None\<rparr>
               \<lparr>Complete = True, Volume = 5, Time = 7, Mid = None, Bid = None, Ask = None\<rparr> \<and>
   processBatch (\<lambda>c. Inr ''bar'') False
     \<lparr>lastCandle = Some \<lparr>Complete = True, Volume = 5, Time = 7, Mid = None, Bid = None, Ask = None\<rparr>,
      fromTime = 7\<rparr>
     (Some [\<lparr>Complete = True, Volume = 5, Time = 7, Mid = None, Bid = None, Ask = None\<rparr>]) =
     ([], Continue \<lparr>lastCandle =
         Some \<lparr>Complete = True, Volume = 5, Time = 7, Mid = None, Bid = None, Ask = None\<rparr>,
       fromTime = 7\<rparr>)"
  using replay_of_completed_candle
    [of "\<lparr>Complete = True, Volume = 5, Time = 7, Mid = None, Bid = None, Ask = None\<rparr>"
        "\<lambda>c. Inr ''bar''" False "[]" "[]" 7]
  by simp

text \<open>
  C6, as claimed: in completed-only mode an incomplete bar contributes nothing to the
  update of the cursor. It does: a batch that holds one incomplete bar prints nothing
  in completed-only mode, yet that bar becomes \<^verbatim>\<open>lastCandle\<close> and its time becomes
  \<^verbatim>\<open>from\<close>, which the same turn on an empty batch would have left alone.
\<close>

theorem completedOnly_cursor_counterexample:
  "processBatch (\<lambda>c. Inr ''bar'') True \<lparr>lastCandle = None, fromTime = 0\<rparr>
     (Some [\<lparr>Complete = False, Volume = 3, Time = 7, Mid = None, Bid = None, Ask = None\<rparr>]) =
     ([], Continue \<lparr>lastCandle =
         Some \<lparr>Complete = False, Volume = 3, Time = 7, Mid = None, Bid = None, Ask = None\<rparr>,
       fromTime = 7\<rparr>) \<and>
   processBatch (\<lambda>c. Inr ''bar'') True \<lparr>lastCandle = None, fromTime = 0\<rparr>
     (Some [\<lparr>Complete = False, Volume = 3, Time = 7, Mid = None, Bid = None, Ask = None\<rparr>]) \<noteq>
   processBatch (\<lambda>c. Inr ''bar'') True \<lparr>lastCandle = None, fromTime = 0\<rparr> (Some [])"
  by (simp add: processBatch_def)

text \<open>
  C6, amended. In completed-only mode the loop over a batch skips every incomplete bar:
  it prints exactly what it prints, in either mode, for the batch with its incomplete
  bars removed. The update of the cursor after the batch does not depend on the mode:
  the final bar of a non-empty batch becomes \<^verbatim>\<open>lastCandle\<close> and its time becomes
  \<^verbatim>\<open>from\<close>, also when that bar is incomplete and was skipped. In the two-batch
  scenario of C2 under completed-only mode, the first turn prints nothing and the second
  prints only the completed 10:00 bar.
\<close>

theorem completedOnly_skips_incomplete:
  "printCandles marshal True lastC candles =
     printCandles marshal False lastC (filter Complete candles) \<and>
   (processBatch marshal True cur (Some candles) = (out, Continue cur') \<and> candles \<noteq> [] \<longrightarrow>
      lastCandle cur' = Some (last candles) \<and> fromTime cur' = Time (last candles)) \<and>
   (marshal \<lparr>Complete = True, Volume = 5, Time = 36000000000000, Mid = m2, Bid = b2, Ask = a2\<rparr> = Inr l2 \<longrightarrow>
      getCandlesStream_loop marshal True \<lparr>lastCandle = None, fromTime = from0\<rparr>
        [\<lambda>from. Inr (Some
           [\<lparr>Complete = False, Volume = 3, Time = 36000000000000, Mid = m1, Bid = b1, Ask = a1\<rparr>])] =
        ([],
         Polling \<lparr>lastCandle =
             Some \<lparr>Complete = False, Volume = 3, Time = 36000000000000, Mid = m1, Bid = b1, Ask = a1\<rparr>,
           fromTime = 36000000000000\<rparr>) \<and>
      getCandlesStream_loop marshal True
        \<lparr>lastCandle =
             Some \<lparr>Complete = False, Volume = 3, Time = 36000000000000, Mid = m1, Bid = b1, Ask = a1\<rparr>,
         fromTime = 36000000000000\<rparr>
        [\<lambda>from. Inr (Some
           [\<lparr>Complete = True, Volume = 5, Time = 36000000000000, Mid = m2, Bid = b2, Ask = a2\<rparr>,
            \<lparr>Complete = False, Volume = 1, Time = 36300000000000, Mid = m3, Bid = b3, Ask = a3\<rparr>])] =
        ([l2],
         Polling \<lparr>lastCandle =
             Some \<lparr>Complete = False, Volume = 1, Time = 36300000000000, Mid = m3, Bid = b3, Ask = a3\<rparr>,
           fromTime = 36300000000000\<rparr>))"
proof (intro conjI impI)
  show "printCandles marshal True lastC candles =
     printCandles marshal False lastC (filter Complete candles)"
    by (rule printCandles_completedOnly_filter)
next
  assume "processBatch marshal True cur (Some candles) = (out, Continue cur') \<and> candles \<noteq> []"
  then show "lastCandle cur' = Some (last candles)" and "fromTime cur' = Time (last candles)"
    by (auto simp: processBatch_def last_conv_nth split: prod.splits option.splits)
next
  assume "marshal \<lparr>Complete = True, Volume = 5, Time = 36000000000000, Mid = m2, Bid = b2, Ask = a2\<rparr> = Inr l2"
  then show "getCandlesStream_loop marshal True
        \<lparr>lastCandle =
             Some \<lparr>Complete = False, Volume = 3, Time = 36000000000000, Mid = m1, Bid = b1, Ask = a1\<rparr>,
         fromTime = 36000000000000\<rparr>
        [\<lambda>from. Inr (Some
           [\<lparr>Complete = True, Volume = 5, Time = 36000000000000, Mid = m2, Bid = b2, Ask = a2\<rparr>,
            \<lparr>Complete = False, Volume = 1, Time = 36300000000000, Mid = m3, Bid = b3, Ask = a3\<rparr>])] =
        ([l2],
         Polling \<lparr>lastCandle =
             Some \<lparr>Complete = False, Volume = 1, Time = 36300000000000, Mid = m3, Bid = b3, Ask = a3\<rparr>,
           fromTime = 36300000000000\<rparr>)"
    by (simp add: processBatch_def NewerThan_def)
next
  show "getCandlesStream_loop marshal True \<lparr>lastCandle = None, fromTime = from0\<rparr>
        [\<lambda>from. Inr (Some
           [\<lparr>Complete = False, Volume = 3, Time = 36000000000000, Mid = m1, Bid = b1, Ask = a1\<rparr>])] =
        ([],
         Polling \<lparr>lastCandle =
             Some \<lparr>Complete = False, Volume = 3, Time = 36000000000000, Mid = m1, Bid = b1, Ask = a1\<rparr>,
           fromTime = 36000000000000\<rparr>)"
    by (simp add: processBatch_def)
qed

theorem completedOnly_skips_incomplete_witness:
  "printCandles (\<lambda>c. Inr ''complete'') True None
     [\<lparr>Complete = True, Volume = 5, Time = 36000000000000, Mid = None, Bid = None, Ask = None\<rparr>,
      \<lparr>Complete = False, Volume = 1, Time = 36300000000000, Mid = None, Bid = None, Ask = None\<rparr>] =
     ([''complete''], None) \<and>
   getCandlesStream_loop (\<lambda>c. Inr ''complete'') True
        \<lparr>lastCandle =
             Some \<lparr>Complete = False, Volume = 3, Time = 36000000000000, Mid = None, Bid = None, Ask = None\<rparr>,
         fromTime = 36000000000000\<rparr>
        [\<lambda>from. Inr (Some
           [\<lparr>Complete = True, Volume = 5, Time = 36000000000000, Mid = None, Bid = None, Ask = None\<rparr>,
            \<lparr>Complete = False, Volume = 1, Time = 36300000000000, Mid = None, Bid = None, Ask = None\<rparr>])] =
        ([''complete''],
         Polling \<lparr>lastCandle =
             Some \<lparr>Complete = False, Volume = 1, Time = 36300000000000, Mid = None, Bid = None, Ask = None\<rparr>,
           fromTime = 36300000000000\<rparr>)"
proof -
  let ?m = "\<lambda>c::Candlestick. (Inr ''complete'' :: error + string)"
  let ?c2 = "\<lparr>Complete = True, Volume = 5, Time = 36000000000000, Mid = None, Bid = None, Ask = None\<rparr>"
  let ?c3 = "\<lparr>Complete = False, Volume = 1, Time = 36300000000000, Mid = None, Bid = None, Ask = None\<rparr>"
  note t = completedOnly_skips_incomplete
    [of ?m None "[?c2, ?c3]" _ _ _ None None None "''complete''" _ None None None None None None]
  from t have "printCandles ?m True None [?c2, ?c3] = printCandles ?m False None (filter Complete [?c2, ?c3])"
    by blast
  moreover from t have "getCandlesStream_loop ?m True
        \<lparr>lastCandle =
             Some \<lparr>Complete = False, Volume = 3, Time = 36000000000000, Mid = None, Bid = None, Ask = None\<rparr>,
         fromTime = 36000000000000\<rparr>
        [\<lambda>from. Inr (Some [?c2, ?c3])] =
        ([''complete''],
         Polling \<lparr>lastCandle = Some ?c3, fromTime = 36300000000000\<rparr>)"
    by simp
  ultimately show ?thesis by simp
qed

section \<open>The live stream consumers: end of stream, decoding, emission\<close>

lemma price_line_type:
  "unmarshal_PriceOrHeartbeat ''{\"type\":\"PRICE\",\"instrument\":\"EUR_USD\"}'' = Inr ''PRICE''"
  by code_simp

lemma heartbeat_line_type:
  "unmarshal_PriceOrHeartbeat ''{\"type\":\"HEARTBEAT\"}'' = Inr ''HEARTBEAT''"
  by code_simp

lemma empty_object_parse: "parseJSON ''{}'' = Some (JObject [])"
  by code_simp

lemma empty_object_type: "unmarshal_PriceOrHeartbeat ''{}'' = Inr []"
  by code_simp

lemma stdout_append: "stdout (xs @ ys) = stdout xs @ stdout ys"
  by (simp add: stdout_def)

lemma stdout_emit: "stdout (fst (emit evs r)) = stdout evs @ stdout (fst r)"
  by (simp add: emit_def stdout_append)

lemma snd_emit: "snd (emit evs r) = snd r"
  by (simp add: emit_def)

lemma getStream_loop_bufio_returns_error:
  "\<exists>e'. snd (getStream_loop heartbeat heartbeatTimeout (bufioReadLines ls e)) = Returned (Some e')"
  by (induction ls) (auto simp: bufioReadLines_def snd_emit split: sum.splits)

lemma storeType_None_iff:
  "storeType ms ty = None \<longleftrightarrow>
   (\<exists>k v. (k, v) \<in> set ms \<and> matchesField ''type'' k \<and> v \<noteq> JNull \<and> (\<forall>s. v \<noteq> JString s))"
proof (induction ms arbitrary: ty)
  case Nil
  then show ?case by simp
next
  case (Cons m ms)
  obtain k v where m: "m = (k, v)" by (cases m)
  show ?case
    unfolding m by (cases v) (auto simp: Cons.IH)
qed

lemma storeType_no_member:
  "\<forall>m\<in>set ms. \<not> matchesField ''type'' (fst m) \<Longrightarrow> storeType ms ty = Some ty"
  by (induction ms arbitrary: ty) auto

lemma unmarshalTypeOnly_error_iff:
  "unmarshalTypeOnly line = Inl e \<longleftrightarrow>
   e = DecodeError \<and>
   (parseJSON line = None \<or>
    (\<exists>v. parseJSON line = Some v \<and> v \<noteq> JNull \<and> (\<forall>ms. v \<noteq> JObject ms)) \<or>
    (\<exists>ms k v. parseJSON line = Some (JObject ms) \<and> (k, v) \<in> set ms \<and>
       matchesField ''type'' k \<and> v \<noteq> JNull \<and> (\<forall>s. v \<noteq> JString s)))"
proof (cases "parseJSON line")
  case None
  then show ?thesis by (auto simp: unmarshalTypeOnly_def)
next
  case (Some v)
  show ?thesis
  proof (cases v)
    case (JObject ms)
    with Some show ?thesis
      using storeType_None_iff [of ms "[]"]
      by (auto simp: unmarshalTypeOnly_def split: option.splits)
  qed (use Some in \<open>auto simp: unmarshalTypeOnly_def\<close>)
qed

lemma order_fill_type:
  "unmarshalTypeOnly ''{\"type\":\"ORDER_FILL\"}'' = Inr ''ORDER_FILL''"
  by code_simp

lemma type_number_parse:
  "parseJSON ''{\"type\":5}'' = Some (JObject [(''type'', JNumber ''5'')])"
  by code_simp

lemma no_heartbeat_signal_when_disabled:
  "HeartbeatSent \<notin> set (fst (getStream_loop heartbeat 0 reads))"
  by (induction reads) (auto simp: emit_def split: option.splits sum.splits if_splits)

text \<open>
  C3. The lines \<^verbatim>\<open>{"type":"PRICE","instrument":"EUR_USD"}\<close> and
  \<^verbatim>\<open>{"type":"HEARTBEAT"}\<close> followed by the end of the stream, with heartbeat lines
  not printed: exactly the PRICE line is printed. The end of the stream reaches the
  consumer as the error \<^verbatim>\<open>io.EOF\<close> of \<^verbatim>\<open>ReadLine\<close>, and the consumer returns that
  error: on no sequence of lines does a stream that ends with \<^verbatim>\<open>io.EOF\<close> make
  \<^verbatim>\<open>getStream\<close> return \<^verbatim>\<open>nil\<close>. The branch that would return \<^verbatim>\<open>nil\<close>, taken on
  a \<^verbatim>\<open>nil\<close> line without an error, is one \<^verbatim>\<open>ReadLine\<close> never leads to.
\<close>

theorem getStream_end_of_stream:
  "stdout (fst (getStream False heartbeatTimeout (Inr account)
      (Response 200 all
        (bufioReadLines
          [''{\"type\":\"PRICE\",\"instrument\":\"EUR_USD\"}'', ''{\"type\":\"HEARTBEAT\"}''] EOF)))) =
     [''{\"type\":\"PRICE\",\"instrument\":\"EUR_USD\"}''] \<and>
   snd (getStream False heartbeatTimeout (Inr account)
      (Response 200 all
        (bufioReadLines
          [''{\"type\":\"PRICE\",\"instrument\":\"EUR_USD\"}'', ''{\"type\":\"HEARTBEAT\"}''] EOF))) =
     Returned (Some EOF) \<and>
   snd (getStream heartbeat heartbeatTimeout (Inr account) (Response 200 all (bufioReadLines ls EOF))) \<noteq>
     Returned None"
proof -
  have "snd (getStream heartbeat heartbeatTimeout (Inr account) (Response 200 all (bufioReadLines ls EOF))) \<noteq>
     Returned None"
    using getStream_loop_bufio_returns_error [of heartbeat heartbeatTimeout ls EOF]
    by (auto simp: getStream_def)
  then show ?thesis
    by (simp add: getStream_def bufioReadLines_def price_line_type heartbeat_line_type
        emit_def stdout_def)
qed

text \<open>
  C4, as claimed: the decoder fails on a line that lacks the member \<^verbatim>\<open>type\<close>, and the
  consumer prints every line the decoder accepts. On the line \<^verbatim>\<open>{}\<close>, which is
  well-formed and has no member \<^verbatim>\<open>type\<close>, the decoder succeeds with the empty string
  as the type, and the price consumer prints nothing for it, even with heartbeat lines
  printed.
\<close>

theorem decoder_accepts_line_without_type:
  "parseJSON ''{}'' = Some (JObject []) \<and>
   unmarshal_PriceOrHeartbeat ''{}'' = Inr [] \<and>
   getStream_loop True 0 (bufioReadLines [''{}''] EOF) = ([], Returned (Some EOF))"
  by (simp add: empty_object_parse empty_object_type bufioReadLines_def emit_def)

text \<open>
  C4, amended. The decoder fails exactly when the line is not well-formed JSON, or is a
  JSON value other than an object or \<^verbatim>\<open>null\<close>, or is an object with a member whose
  name is \<^verbatim>\<open>type\<close> up to the case of letters and whose value is neither a string nor
  \<^verbatim>\<open>null\<close>; an object without such a member is accepted, with the empty string as
  its type. When the decoder fails, the consumer returns the error at once and prints
  nothing for this line or the lines after it. When the decoder accepts the line, the
  consumer prints either nothing for it or the line itself, byte for byte: the line
  itself exactly when the type is \<^verbatim>\<open>PRICE\<close>, or \<^verbatim>\<open>HEARTBEAT\<close> with heartbeat lines
  printed.
\<close>

theorem decoder_failures:
  "(unmarshal_PriceOrHeartbeat line = Inl e \<longleftrightarrow>
      e = DecodeError \<and>
      (parseJSON line = None \<or>
       (\<exists>v. parseJSON line = Some v \<and> v \<noteq> JNull \<and> (\<forall>ms. v \<noteq> JObject ms)) \<or>
       (\<exists>ms k v. parseJSON line = Some (JObject ms) \<and> (k, v) \<in> set ms \<and>
          matchesField ''type'' k \<and> v \<noteq> JNull \<and> (\<forall>s. v \<noteq> JString s)))) \<and>
   (parseJSON line = Some (JObject ms) \<and> (\<forall>m\<in>set ms. \<not> matchesField ''type'' (fst m)) \<longrightarrow>
      unmarshal_PriceOrHeartbeat line = Inr []) \<and>
   (unmarshal_PriceOrHeartbeat line = Inl e \<longrightarrow>
      getStream_loop heartbeat heartbeatTimeout ((Some line, None) # rest) =
        ([], Returned (Some e))) \<and>
   (unmarshal_PriceOrHeartbeat line = Inr ty \<longrightarrow>
      stdout (fst (getStream_loop heartbeat heartbeatTimeout ((Some line, None) # rest))) =
        (if ty = ''PRICE'' \<or> (ty = ''HEARTBEAT'' \<and> heartbeat) then [line] else []) @
        stdout (fst (getStream_loop heartbeat heartbeatTimeout rest)))"
proof (intro conjI impI)
  show "unmarshal_PriceOrHeartbeat line = Inl e \<longleftrightarrow>
      e = DecodeError \<and>
      (parseJSON line = None \<or>
       (\<exists>v. parseJSON line = Some v \<and> v \<noteq> JNull \<and> (\<forall>ms. v \<noteq> JObject ms)) \<or>
       (\<exists>ms k v. parseJSON line = Some (JObject ms) \<and> (k, v) \<in> set ms \<and>
          matchesField ''type'' k \<and> v \<noteq> JNull \<and> (\<forall>s. v \<noteq> JString s)))"
    unfolding unmarshal_PriceOrHeartbeat_def by (rule unmarshalTypeOnly_error_iff)
next
  assume "parseJSON line = Some (JObject ms) \<and> (\<forall>m\<in>set ms. \<not> matchesField ''type'' (fst m))"
  then show "unmarshal_PriceOrHeartbeat line = Inr []"
    by (simp add: unmarshal_PriceOrHeartbeat_def unmarshalTypeOnly_def storeType_no_member)
next
  assume "unmarshal_PriceOrHeartbeat line = Inl e"
  then show "getStream_loop heartbeat heartbeatTimeout ((Some line, None) # rest) =
        ([], Returned (Some e))"
    by simp
next
  assume "unmarshal_PriceOrHeartbeat line = Inr ty"
  then show "stdout (fst (getStream_loop heartbeat heartbeatTimeout ((Some line, None) # rest))) =
        (if ty = ''PRICE'' \<or> (ty = ''HEARTBEAT'' \<and> heartbeat) then [line] else []) @
        stdout (fst (getStream_loop heartbeat heartbeatTimeout rest))"
    by (simp add: stdout_emit) (simp add: stdout_def)
qed

theorem decoder_failures_witness:
  "unmarshal_PriceOrHeartbeat ''{\"type\":5}'' = Inl DecodeError \<and>
   getStream_loop True 0 [(Some ''{\"type\":5}'', None), (None, Some EOF)] =
     ([], Returned (Some DecodeError)) \<and>
   unmarshal_PriceOrHeartbeat ''{}'' = Inr [] \<and>
   stdout (fst (getStream_loop False 0
     [(Some ''{\"type\":\"PRICE\",\"instrument\":\"EUR_USD\"}'', None), (None, Some EOF)])) =
     [''{\"type\":\"PRICE\",\"instrument\":\"EUR_USD\"}'']"
proof -
  have m: "matchesField ''type'' ''type''"
    by (simp add: matchesField_def)
  have "\<exists>ms k v. parseJSON ''{\"type\":5}'' = Some (JObject ms) \<and> (k, v) \<in> set ms \<and>
          matchesField ''type'' k \<and> v \<noteq> JNull \<and> (\<forall>s. v \<noteq> JString s)"
    using type_number_parse m by auto
  with decoder_failures [of "''{\"type\":5}''" DecodeError "[]" True 0 "[(None, Some EOF)]" "[]"]
  have a: "unmarshal_PriceOrHeartbeat ''{\"type\":5}'' = Inl DecodeError"
    and b: "getStream_loop True 0 ((Some ''{\"type\":5}'', None) # [(None, Some EOF)]) =
       ([], Returned (Some DecodeError))"
    by blast+
  from decoder_failures [of "''{}''" DecodeError "[]" True 0 "[]" "[]"] empty_object_parse
  have c: "unmarshal_PriceOrHeartbeat ''{}'' = Inr []"
    by simp
  from decoder_failures
    [of "''{\"type\":\"PRICE\",\"instrument\":\"EUR_USD\"}''" DecodeError "[]" False 0
        "[(None, Some EOF)]" "''PRICE''"]
    price_line_type
  have d: "stdout (fst (getStream_loop False 0
     ((Some ''{\"type\":\"PRICE\",\"instrument\":\"EUR_USD\"}'', None) # [(None, Some EOF)]))) =
     [''{\"type\":\"PRICE\",\"instrument\":\"EUR_USD\"}''] @
     stdout (fst (getStream_loop False 0 [(None, Some EOF)]))"
    by simp
  have "stdout (fst (getStream_loop False 0 [(None, Some EOF)])) = []"
    by (simp add: stdout_def)
  with a b c d show ?thesis by simp
qed

text \<open>
  C10. A line the decoder accepts with a type that is neither \<^verbatim>\<open>PRICE\<close> nor
  \<^verbatim>\<open>HEARTBEAT\<close> leaves no trace in the price consumer: nothing is printed, nothing is
  sent to the watchdog, no error is returned, and the loop goes on with the next line
  as if the line had not been there. The transaction consumer prints every accepted
  line whose type is not \<^verbatim>\<open>HEARTBEAT\<close> and goes on.
\<close>

theorem other_types:
  "(unmarshal_PriceOrHeartbeat line = Inr ty \<and> ty \<noteq> ''PRICE'' \<and> ty \<noteq> ''HEARTBEAT'' \<longrightarrow>
      getStream_loop heartbeat heartbeatTimeout ((Some line, None) # rest) =
        getStream_loop heartbeat heartbeatTimeout rest) \<and>
   (unmarshal_TransactionOrHeartbeat line = Inr ty \<and> ty \<noteq> ''HEARTBEAT'' \<longrightarrow>
      getTransactionStream_loop heartbeat heartbeatTimeout ((Some line, None) # rest) =
        emit [Println line] (getTransactionStream_loop heartbeat heartbeatTimeout rest))"
  by (simp add: emit_def)

theorem other_types_witness:
  "getStream_loop False 5 (bufioReadLines [''{\"type\":\"ORDER_FILL\"}''] EOF) =
     ([], Returned (Some EOF)) \<and>
   getTransactionStream_loop False 5 (bufioReadLines [''{\"type\":\"ORDER_FILL\"}''] EOF) =
     ([Println ''{\"type\":\"ORDER_FILL\"}''], Returned (Some EOF))"
proof -
  have a: "unmarshal_PriceOrHeartbeat ''{\"type\":\"ORDER_FILL\"}'' = Inr ''ORDER_FILL'' \<and>
     ''ORDER_FILL'' \<noteq> ''PRICE'' \<and> ''ORDER_FILL'' \<noteq> ''HEARTBEAT''"
    by (simp add: unmarshal_PriceOrHeartbeat_def order_fill_type)
  have b: "unmarshal_TransactionOrHeartbeat ''{\"type\":\"ORDER_FILL\"}'' = Inr ''ORDER_FILL'' \<and>
     ''ORDER_FILL'' \<noteq> ''HEARTBEAT''"
    by (simp add: unmarshal_TransactionOrHeartbeat_def order_fill_type)
  from other_types [of "''{\"type\":\"ORDER_FILL\"}''" "''ORDER_FILL''" False 5 "[(None, Some EOF)]"] a b
  have "getStream_loop False 5 ((Some ''{\"type\":\"ORDER_FILL\"}'', None) # [(None, Some EOF)]) =
        getStream_loop False 5 [(None, Some EOF)]"
    and "getTransactionStream_loop False 5 ((Some ''{\"type\":\"ORDER_FILL\"}'', None) # [(None, Some EOF)]) =
        emit [Println ''{\"type\":\"ORDER_FILL\"}''] (getTransactionStream_loop False 5 [(None, Some EOF)])"
    by blast+
  then show ?thesis
    by (simp add: bufioReadLines_def emit_def)
qed

lemma no_heartbeat_signal_when_disabled_transactions:
  "HeartbeatSent \<notin> set (fst (getTransactionStream_loop heartbeat 0 reads))"
  by (induction reads) (auto simp: emit_def split: option.splits sum.splits if_splits)

lemma getStream_no_signal:
  "HeartbeatSent \<notin> set (fst (getStream heartbeat 0 credentials ex))"
  using no_heartbeat_signal_when_disabled
  by (auto simp: getStream_def split: sum.splits exchange.splits)

lemma getTransactionStream_no_signal:
  "HeartbeatSent \<notin> set (fst (getTransactionStream heartbeat 0 credentials ex))"
  using no_heartbeat_signal_when_disabled_transactions
  by (auto simp: getTransactionStream_def split: sum.splits exchange.splits)

lemma watchdog_signals_in_time:
  "\<forall>ev\<in>set selects. \<exists>d. fst ev = Some d \<and> d < heartbeatTimeout \<Longrightarrow>
   watchdog heartbeatTimeout selects = (length selects, Selecting)"
  by (induction selects) (auto simp: selectHeartbeat_def max_def)

text \<open>
  C7. With \<^verbatim>\<open>heartbeatTimeout\<close> zero no watchdog goroutine is started, so no timer is
  created and nothing can panic, and neither consumer ever sends on
  \<^verbatim>\<open>heartbeatChannel\<close>, whatever it reads. With \<^verbatim>\<open>heartbeatTimeout\<close> not zero the
  goroutine is started and the price consumer sends one value for each heartbeat line.
  A value received before the timeout has elapsed makes the goroutine go on as a
  watchdog started afresh, with a new timer: as long as each value arrives within the
  timeout of the one before, the watchdog never panics, however long it runs. When
  the timeout elapses before a sender is ready, or no sender ever is, the goroutine
  panics; its function has no other way to end.
\<close>

theorem heartbeat_watchdog:
  "spawnWatchdog 0 selects = None \<and>
   HeartbeatSent \<notin> set (fst (getStream heartbeat 0 credentials ex)) \<and>
   HeartbeatSent \<notin> set (fst (getTransactionStream heartbeat 0 credentials ex)) \<and>
   (heartbeatTimeout \<noteq> 0 \<longrightarrow>
      spawnWatchdog heartbeatTimeout selects = Some (watchdog heartbeatTimeout selects)) \<and>
   (heartbeatTimeout \<noteq> 0 \<and> unmarshal_PriceOrHeartbeat line = Inr ''HEARTBEAT'' \<longrightarrow>
      getStream_loop heartbeat heartbeatTimeout ((Some line, None) # reads) =
        emit (HeartbeatSent # (if heartbeat then [Println line] else []))
          (getStream_loop heartbeat heartbeatTimeout reads)) \<and>
   (d < heartbeatTimeout \<longrightarrow>
      watchdog heartbeatTimeout ((Some d, tie) # rest) =
        (Suc (fst (watchdog heartbeatTimeout rest)), snd (watchdog heartbeatTimeout rest))) \<and>
   ((\<forall>ev\<in>set selects. \<exists>d. fst ev = Some d \<and> d < heartbeatTimeout) \<longrightarrow>
      watchdog heartbeatTimeout selects = (length selects, Selecting)) \<and>
   (0 < d \<and> heartbeatTimeout < d \<longrightarrow>
      watchdog heartbeatTimeout ((Some d, tie) # rest) = (1, HeartbeatTimeoutPanic)) \<and>
   watchdog heartbeatTimeout ((None, tie) # rest) = (1, HeartbeatTimeoutPanic)"
proof (intro conjI impI)
  show "HeartbeatSent \<notin> set (fst (getStream heartbeat 0 credentials ex))"
    by (rule getStream_no_signal)
  show "HeartbeatSent \<notin> set (fst (getTransactionStream heartbeat 0 credentials ex))"
    by (rule getTransactionStream_no_signal)
  show "spawnWatchdog 0 selects = None"
    by (simp add: spawnWatchdog_def)
  show "spawnWatchdog heartbeatTimeout selects = Some (watchdog heartbeatTimeout selects)"
    if "heartbeatTimeout \<noteq> 0"
    using that by (simp add: spawnWatchdog_def)
  show "getStream_loop heartbeat heartbeatTimeout ((Some line, None) # reads) =
        emit (HeartbeatSent # (if heartbeat then [Println line] else []))
          (getStream_loop heartbeat heartbeatTimeout reads)"
    if "heartbeatTimeout \<noteq> 0 \<and> unmarshal_PriceOrHeartbeat line = Inr ''HEARTBEAT''"
    using that by simp
  show "watchdog heartbeatTimeout ((Some d, tie) # rest) =
        (Suc (fst (watchdog heartbeatTimeout rest)), snd (watchdog heartbeatTimeout rest))"
    if "d < heartbeatTimeout"
    using that by (auto simp: selectHeartbeat_def split_beta max_def)
  show "watchdog heartbeatTimeout selects = (length selects, Selecting)"
    if "\<forall>ev\<in>set selects. \<exists>d. fst ev = Some d \<and> d < heartbeatTimeout"
    using that by (rule watchdog_signals_in_time)
  show "watchdog heartbeatTimeout ((Some d, tie) # rest) = (1, HeartbeatTimeoutPanic)"
    if "0 < d \<and> heartbeatTimeout < d"
    using that by (auto simp: selectHeartbeat_def max_def)
  show "watchdog heartbeatTimeout ((None, tie) # rest) = (1, HeartbeatTimeoutPanic)"
    by (simp add: selectHeartbeat_def)
qed

theorem heartbeat_watchdog_witness:
  "spawnWatchdog 50000000 (replicate 20 (Some 10000000, TimedOut)) = Some (20, Selecting) \<and>
   spawnWatchdog 50000000 [(Some 10000000, Received), (Some 60000000, Received)] =
     Some (2, HeartbeatTimeoutPanic) \<and>
   getStream_loop False 50000000 [(Some ''{\"type\":\"HEARTBEAT\"}'', None), (None, Some EOF)] =
     ([HeartbeatSent], Returned (Some EOF))"
proof -
  let ?t = "50000000 :: int"
  let ?h = "''{\"type\":\"HEARTBEAT\"}''"
  have in_time: "\<forall>ev\<in>set (replicate 20 (Some (10000000::int), TimedOut)).
      \<exists>d. fst ev = Some d \<and> d < ?t"
    by simp
  from heartbeat_watchdog
    [of "replicate 20 (Some 10000000, TimedOut)" False "Inl EOF" "DoFailed EOF" ?t ?h
        "[(None, Some EOF)]" 10000000 Received "[]"]
    in_time
  have a: "spawnWatchdog ?t (replicate 20 (Some 10000000, TimedOut)) =
      Some (watchdog ?t (replicate 20 (Some 10000000, TimedOut)))"
    and b: "watchdog ?t (replicate 20 (Some 10000000, TimedOut)) =
      (length (replicate 20 (Some (10000000::int), TimedOut)), Selecting)"
    and c: "getStream_loop False ?t ((Some ?h, None) # [(None, Some EOF)]) =
        emit (HeartbeatSent # (if False then [Println ?h] else []))
          (getStream_loop False ?t [(None, Some EOF)])"
    by (simp_all add: heartbeat_line_type)
  from heartbeat_watchdog
    [of "[(Some 10000000, Received), (Some 60000000, Received)]" False "Inl EOF" "DoFailed EOF" ?t ?h
        "[(None, Some EOF)]" 10000000 Received "[(Some 60000000, Received)]"]
  have d: "spawnWatchdog ?t [(Some 10000000, Received), (Some 60000000, Received)] =
      Some (watchdog ?t [(Some 10000000, Received), (Some 60000000, Received)])"
    and e: "watchdog ?t ((Some 10000000, Received) # [(Some 60000000, Received)]) =
        (Suc (fst (watchdog ?t [(Some 60000000, Received)])),
         snd (watchdog ?t [(Some 60000000, Received)]))"
    by simp_all
  from heartbeat_watchdog
    [of "[]" False "Inl EOF" "DoFailed EOF" ?t ?h "[]" 60000000 Received "[]"]
  have f: "watchdog ?t ((Some 60000000, Received) # []) = (1, HeartbeatTimeoutPanic)"
    by simp
  from a b c d e f show ?thesis
    by (simp add: emit_def)
qed

section \<open>The poller: a response without candles\<close>

lemma storeBody_keeps_Candles:
  "\<forall>m\<in>set ms. \<not> matchesField ''candles'' (fst m) \<Longrightarrow>
   storeBody slice ms body = Some body' \<Longrightarrow> Candles body' = Candles body"
proof (induction ms arbitrary: body)
  case Nil
  then show ?case by simp
next
  case (Cons m ms)
  obtain k v where m: "m = (k, v)" by (cases m)
  from Cons.prems have nk: "\<not> matchesField ''candles'' k"
    and rest: "\<forall>m\<in>set ms. \<not> matchesField ''candles'' (fst m)"
    by (simp_all add: m)
  from Cons.prems(2) nk obtain body1 where
    "storeBody slice ms body1 = Some body'" and "Candles body1 = Candles body"
    unfolding m by (cases v) (auto split: if_splits)
  with Cons.IH [OF rest] show ?case by simp
qed

lemma no_candles_parse:
  "parseJSON ''{\"instrument\":\"EUR_USD\",\"granularity\":\"S5\"}'' =
     Some (JObject [(''instrument'', JString ''EUR_USD''), (''granularity'', JString ''S5'')])"
  by code_simp

lemma no_candles_names:
  "\<not> matchesField ''candles'' ''instrument'' \<and> \<not> matchesField ''candles'' ''granularity'' \<and>
   \<not> matchesField ''granularity'' ''instrument'' \<and> matchesField ''instrument'' ''instrument'' \<and>
   matchesField ''granularity'' ''granularity''"
  by code_simp

text \<open>
  C9. A response with status 200 whose body is a JSON object without a member for
  \<^verbatim>\<open>candles\<close>, decoded without error, makes \<^verbatim>\<open>getCandlesForStream\<close> return the
  \<^verbatim>\<open>nil\<close> pointer and no error; the poller then dereferences it and panics, printing
  nothing and returning no error.
\<close>

theorem missing_candles_panics:
  "parseJSON body = Some (JObject ms) \<Longrightarrow>
   \<forall>m\<in>set ms. \<not> matchesField ''candles'' (fst m) \<Longrightarrow>
   unmarshal_CandlesResponseBody slice body = Inr b \<Longrightarrow>
   getCandlesForStream slice (Response 200 (Inr body) reads) = Inr None \<and>
   getCandlesStream marshal slice from0 completedOnly (Inr account)
     ((\<lambda>from. Response 200 (Inr body) reads) # servers) = ([], Panicked)"
proof -
  assume p: "parseJSON body = Some (JObject ms)"
    and n: "\<forall>m\<in>set ms. \<not> matchesField ''candles'' (fst m)"
    and u: "unmarshal_CandlesResponseBody slice body = Inr b"
  from p u have "storeBody slice ms \<lparr>Candles = None, Granularity = [], Instrument = []\<rparr> = Some b"
    by (auto simp: unmarshal_CandlesResponseBody_def split: option.splits)
  from storeBody_keeps_Candles [OF n this] have "Candles b = None" by simp
  with u have g: "getCandlesForStream slice (Response 200 (Inr body) reads) = Inr None"
    by (simp add: getCandlesForStream_def)
  then show ?thesis
    by (simp add: getCandlesStream_def processBatch_def)
qed

theorem missing_candles_panics_witness:
  "getCandlesForStream (\<lambda>cur v. None)
     (Response 200 (Inr ''{\"instrument\":\"EUR_USD\",\"granularity\":\"S5\"}'') []) = Inr None \<and>
   getCandlesStream (\<lambda>c. Inr ''bar'') (\<lambda>cur v. None) 0 False
     (Inr \<lparr>AccountId = ''account'', Token = ''token''\<rparr>)
     [\<lambda>from. Response 200 (Inr ''{\"instrument\":\"EUR_USD\",\"granularity\":\"S5\"}'') []] =
     ([], Panicked)"
proof -
  let ?body = "''{\"instrument\":\"EUR_USD\",\"granularity\":\"S5\"}''"
  let ?ms = "[(''instrument'', JString ''EUR_USD''), (''granularity'', JString ''S5'')]"
  have n: "\<forall>m\<in>set ?ms. \<not> matchesField ''candles'' (fst m)"
    using no_candles_names by simp
  have u: "unmarshal_CandlesResponseBody (\<lambda>cur v. None) ?body =
     Inr \<lparr>Candles = None, Granularity = ''S5'', Instrument = ''EUR_USD''\<rparr>"
    using no_candles_names by (simp add: unmarshal_CandlesResponseBody_def no_candles_parse)
  from missing_candles_panics [OF no_candles_parse n u, of "[]" "\<lambda>c. Inr ''bar''" 0 False
      "\<lparr>AccountId = ''account'', Token = ''token''\<rparr>" "[]"]
  show ?thesis .
qed

end
